theory Spec2Isabelle
  imports Complex_Main "HOL-Library.Sublist"
begin

section \<open>Differential-drive motor control over a serial line\<close>

text \<open>
  A shallow embedding of \<^verbatim>\<open>odrive_uart.py\<close> (class \<^verbatim>\<open>ODriveUART\<close>) and
  \<^verbatim>\<open>motor_control.py\<close> (class \<^verbatim>\<open>MotorControl\<close>).

  Conventions of the model.
  \<^item> Python floats are modelled as exact reals: rounding error, signed zero, infinities
    and NaN are outside the model. \<^verbatim>\<open>np.pi\<close> is the rational value of the double it is.
  \<^item> A Python \<^verbatim>\<open>str\<close> or \<^verbatim>\<open>bytes\<close> is a \<open>string\<close> (a list of 8-bit characters).
  \<^item> An exception is the \<open>Inl\<close> of a sum; Python's \<^verbatim>\<open>None\<close> result of a method that
    returns nothing is \<open>()\<close>, and \<^verbatim>\<open>send_command\<close>, which returns a string or
    \<^verbatim>\<open>None\<close>, returns a \<open>string option\<close>.
  \<^item> The serial line is part of the state: a trace of the operations performed on the
    port, and a script that says what the port does at each coming exchange.
  \<^item> Console output (\<^verbatim>\<open>print\<close>, the logger) and \<^verbatim>\<open>time.sleep\<close> are not modelled.
  \<^item> The module \<^verbatim>\<open>constants\<close> is not part of the sources; its values are the fields of
    a record \<open>config\<close> that the functions take as a parameter.
\<close>

subsection \<open>Python strings and number formatting\<close>

definition newline :: char where
  "newline = CHR 0x0A"

text \<open>\<^verbatim>\<open>str.isspace\<close> on the ASCII range: tab to carriage return, the four
  separators 0x1C to 0x1F, and the blank.\<close>

definition isspace :: "char \<Rightarrow> bool" where
  "isspace c = (c \<in> set [CHR 0x09, CHR 0x0A, CHR 0x0B, CHR 0x0C, CHR 0x0D,
                           CHR 0x1C, CHR 0x1D, CHR 0x1E, CHR 0x1F, CHR 0x20])"

definition strip :: "string \<Rightarrow> string" where
  "strip s = rev (dropWhile isspace (rev (dropWhile isspace s)))"

definition isdigit :: "char \<Rightarrow> bool" where
  "isdigit c = (c \<in> set ''0123456789'')"

text \<open>The value of a decimal digit: its code minus the code of \<open>0\<close>.\<close>

definition digit_value :: "char \<Rightarrow> int" where
  "digit_value c = of_char c - 48"

definition startswith :: "string \<Rightarrow> char \<Rightarrow> bool" where
  "startswith s c = (case s of [] \<Rightarrow> False | x # _ \<Rightarrow> x = c)"

text \<open>\<^verbatim>\<open>bytes.decode('ascii')\<close> succeeds exactly when every byte is below 128.\<close>

definition is_ascii :: "string \<Rightarrow> bool" where
  "is_ascii bs = list_all (\<lambda>c. \<not> digit7 c) bs"

definition digit_char :: "nat \<Rightarrow> char" where
  "digit_char n = ''0123456789'' ! (n mod 10)"

text \<open>\<^verbatim>\<open>str(n)\<close> for a natural number; the fuel is the number of digits still allowed,
  and \<open>str_nat\<close> gives enough of it.\<close>

fun str_digits :: "nat \<Rightarrow> nat \<Rightarrow> string" where
  "str_digits 0 n = [digit_char n]"
| "str_digits (Suc k) n =
     (if n < 10 then [digit_char n] else str_digits k (n div 10) @ [digit_char n])"

definition str_nat :: "nat \<Rightarrow> string" where
  "str_nat n = str_digits n n"

text \<open>\<^verbatim>\<open>f'{axis}'\<close> for a Python int.\<close>

definition str_int :: "int \<Rightarrow> string" where
  "str_int i = (if i < 0 then CHR ''-'' # str_nat (nat (- i)) else str_nat (nat i))"

definition round_half_even :: "real \<Rightarrow> int" where
  "round_half_even y =
     (let f = \<lfloor>y\<rfloor>; r = y - of_int f
      in if r < 1 / 2 then f else if 1 / 2 < r then f + 1
         else if even f then f else f + 1)"

definition zero_pad :: "nat \<Rightarrow> string \<Rightarrow> string" where
  "zero_pad d s = replicate (d - length s) (CHR ''0'') @ s"

text \<open>\<^verbatim>\<open>f'{x:.df}'\<close>: fixed-point notation with \<open>d\<close> digits after the point, the
  value rounded half to even, the sign kept when the value is negative.\<close>

definition format_f :: "nat \<Rightarrow> real \<Rightarrow> string" where
  "format_f d x =
     (let n = nat (round_half_even (\<bar>x\<bar> * 10 ^ d));
          ip = n div 10 ^ d;
          fp = n mod 10 ^ d
      in (if x < 0 then ''-'' else '''') @ str_nat ip
         @ (if d = 0 then '''' else ''.'' @ zero_pad d (str_nat fp)))"

text \<open>\<^verbatim>\<open>int(s)\<close> on a string of decimal digits only: \<^verbatim>\<open>ValueError\<close> on the empty
  string. (CPython's optional limit on the number of digits is not modelled.)\<close>

datatype error = SerialException | UnicodeDecodeError | ValueError | TypeError
  | AttributeError | ZeroDivisionError

definition int_of_digits :: "string \<Rightarrow> int" where
  "int_of_digits s = foldl (\<lambda>acc c. 10 * acc + digit_value c) 0 s"

definition py_int :: "string \<Rightarrow> error + int" where
  "py_int s = (if s = [] then Inl ValueError else Inr (int_of_digits s))"


subsection \<open>The serial line and the state of the program\<close>

text \<open>What the port does at one exchange (one call of \<^verbatim>\<open>send_command\<close>):
  \<^verbatim>\<open>reset_input_buffer\<close> raises, or \<^verbatim>\<open>write\<close> raises, or \<^verbatim>\<open>readline\<close> raises, or
  the write succeeds and \<^verbatim>\<open>readline\<close>, if it is called, returns the given bytes
  (no bytes when the timeout of one second passes with nothing received).\<close>

datatype exchange = PortClosed | WriteFails | ReadFails | Reply string

datatype event = Open string | ResetInput | ResetOutput | Write string | ReadLine

text \<open>The fields of \<^verbatim>\<open>ODriveUART\<close> other than the port.\<close>

record ODriveUART =
  left_axis :: int
  right_axis :: int
  dir_left :: real
  dir_right :: real

text \<open>The fields of \<^verbatim>\<open>MotorControl\<close> (\<open>motor_controller\<close> is \<open>None\<close> while the
  attribute does not exist), then the serial line: the operations performed so far, what
  the port does at the coming exchanges (a port whose script has run out accepts every
  write and stays silent), and whether each coming \<^verbatim>\<open>serial.Serial(...)\<close> opens the
  port (it does once the list has run out).\<close>

record state =
  is_idle :: bool
  cycle_count :: int
  motor_controller :: "ODriveUART option"
  left_motor_dir :: real
  right_motor_dir :: real
  trace :: "event list"
  script :: "exchange list"
  opens :: "bool list"

text \<open>The values of the module \<^verbatim>\<open>constants\<close>.\<close>

record config =
  MOTOR_CONTROL_SERIAL_PORT :: string
  MOTOR_CONTROL_LEFT_MOTOR_AXIS :: int
  MOTOR_CONTROL_RIGHT_MOTOR_AXIS :: int
  MOTOR_CONTROL_MAX_SPEED_LINEAR_MPS :: real
  MOTOR_CONTROL_MAX_SPEED_ANGULAR_RADPS :: real
  ROBOT_WHEEL_RADIUS_M :: real
  ROBOT_WHEEL_DIST_M :: real

type_synonym 'a io = "state \<Rightarrow> (error + 'a) \<times> state"

definition ret :: "'a \<Rightarrow> 'a io" where
  "ret x = (\<lambda>s. (Inr x, s))"

definition raise :: "error \<Rightarrow> 'a io" where
  "raise e = (\<lambda>s. (Inl e, s))"

definition bind :: "'a io \<Rightarrow> ('a \<Rightarrow> 'b io) \<Rightarrow> 'b io" where
  "bind m k = (\<lambda>s. case m s of (Inl e, s') \<Rightarrow> (Inl e, s') | (Inr x, s') \<Rightarrow> k x s')"

definition andthen :: "'a io \<Rightarrow> 'b io \<Rightarrow> 'b io" where
  "andthen m k = bind m (\<lambda>_. k)"

text \<open>Statements one after the other; the first exception ends the sequence.\<close>

fun seq :: "unit io list \<Rightarrow> unit io" where
  "seq [] = ret ()"
| "seq (m # ms) = andthen m (seq ms)"

text \<open>\<^verbatim>\<open>try: m  except Exception: h\<close>.\<close>

definition try_except :: "'a io \<Rightarrow> 'a io \<Rightarrow> 'a io" where
  "try_except m h = (\<lambda>s. case m s of (Inl e, s') \<Rightarrow> h s' | (Inr x, s') \<Rightarrow> (Inr x, s'))"

definition emit :: "event \<Rightarrow> unit io" where
  "emit ev = (\<lambda>s. (Inr (), s\<lparr>trace := trace s @ [ev]\<rparr>))"

definition next_exchange :: "exchange io" where
  "next_exchange = (\<lambda>s. case script s of
       [] \<Rightarrow> (Inr (Reply []), s)
     | x # xs \<Rightarrow> (Inr x, s\<lparr>script := xs\<rparr>))"

subsection \<open>\<^verbatim>\<open>ODriveUART\<close>\<close>

text \<open>\<^verbatim>\<open>ODriveUART.__init__\<close>: open the port, then clear both buffers.\<close>

definition ODriveUART_init :: "string \<Rightarrow> int \<Rightarrow> int \<Rightarrow> real \<Rightarrow> real \<Rightarrow> ODriveUART io" where
  "ODriveUART_init port la ra dl dr = (\<lambda>s.
     let (ok, rest) = (case opens s of [] \<Rightarrow> (True, []) | b # bs \<Rightarrow> (b, bs));
         s1 = s\<lparr>opens := rest\<rparr>
     in if \<not> ok then (Inl SerialException, s1)
        else (Inr \<lparr>left_axis = la, right_axis = ra, dir_left = dl, dir_right = dr\<rparr>,
              s1\<lparr>trace := trace s1 @ [Open port, ResetInput, ResetOutput]\<rparr>))"

definition is_query :: "string \<Rightarrow> bool" where
  "is_query command = (startswith command CHR ''r'' \<or> startswith command CHR ''f'')"

definition send_command :: "string \<Rightarrow> string option io" where
  "send_command command =
     bind next_exchange (\<lambda>x.
       if x = PortClosed then raise SerialException
       else andthen (emit ResetInput)
         (if x = WriteFails then raise SerialException
          else andthen (emit (Write (command @ [newline])))
            (if is_query command then
               andthen (emit ReadLine)
                 (case x of
                    Reply bs \<Rightarrow>
                      if is_ascii bs then ret (Some (strip bs))
                      else raise UnicodeDecodeError
                  | _ \<Rightarrow> raise SerialException)
             else ret None)))"

text \<open>A call whose result is not used.\<close>

definition send :: "string \<Rightarrow> unit io" where
  "send command = andthen (send_command command) (ret ())"

text \<open>\<^verbatim>\<open>''.join(c for c in response if c.isdigit())\<close>, then \<^verbatim>\<open>int\<close>; iterating over
  \<^verbatim>\<open>None\<close> is a \<^verbatim>\<open>TypeError\<close>.\<close>

definition cleaned_int :: "string option \<Rightarrow> error + int" where
  "cleaned_int response =
     (case response of None \<Rightarrow> Inl TypeError | Some r \<Rightarrow> py_int (filter isdigit r))"

text \<open>\<^verbatim>\<open>ERROR_DICT\<close> maps the names of \<^verbatim>\<open>odrive.enums\<close> to their values, so looking an
  integer up in it always gives the default, the name it had before.\<close>

definition get_errors :: "ODriveUART \<Rightarrow> int \<Rightarrow> (int \<times> string) io" where
  "get_errors self axis =
     bind (send_command (''r axis'' @ str_int axis @ ''.error'')) (\<lambda>error_response.
       case cleaned_int error_response of
         Inr error_code \<Rightarrow> ret (error_code, ''Unknown error'')
       | Inl e \<Rightarrow> if e = ValueError then ret (- 1, ''Unknown error'') else raise e)"

definition get_errors_left :: "ODriveUART \<Rightarrow> (int \<times> string) io" where
  "get_errors_left self = get_errors self (left_axis self)"

definition get_errors_right :: "ODriveUART \<Rightarrow> (int \<times> string) io" where
  "get_errors_right self = get_errors self (right_axis self)"

text \<open>The loop \<^verbatim>\<open>for axis in [0,1]\<close> of \<^verbatim>\<open>has_errors\<close>.\<close>

fun has_errors_loop :: "int list \<Rightarrow> bool io" where
  "has_errors_loop [] = ret False"
| "has_errors_loop (axis # axes) =
     bind (send_command (''r axis'' @ str_int axis @ ''.error'')) (\<lambda>error_response.
       case cleaned_int error_response of
         Inl e \<Rightarrow> if e = ValueError then ret True else raise e
       | Inr error_code \<Rightarrow> if error_code \<noteq> 0 then ret True else has_errors_loop axes)"

definition has_errors :: "ODriveUART \<Rightarrow> bool io" where
  "has_errors self = has_errors_loop [0, 1]"

text \<open>\<^verbatim>\<open>dump_errors\<close>: one query for each source; what it parses is only printed.\<close>

definition error_sources :: "string list" where
  "error_sources = [''axis0'', ''axis0.encoder'', ''axis0.controller'', ''axis0.motor'',
                    ''axis1'', ''axis1.encoder'', ''axis1.controller'', ''axis1.motor'']"

definition dump_errors :: "ODriveUART \<Rightarrow> unit io" where
  "dump_errors self = seq (map (\<lambda>src. send (''r '' @ src @ ''.error'')) error_sources)"


definition enable_torque_mode :: "ODriveUART \<Rightarrow> int \<Rightarrow> unit io" where
  "enable_torque_mode self axis = seq
     [send (''w axis'' @ str_int axis @ ''.controller.config.control_mode 1''),
      send (''w axis'' @ str_int axis @ ''.controller.config.input_mode 1'')]"

definition enable_torque_mode_left :: "ODriveUART \<Rightarrow> unit io" where
  "enable_torque_mode_left self = enable_torque_mode self (left_axis self)"

definition enable_torque_mode_right :: "ODriveUART \<Rightarrow> unit io" where
  "enable_torque_mode_right self = enable_torque_mode self (right_axis self)"

definition enable_velocity_mode :: "ODriveUART \<Rightarrow> int \<Rightarrow> unit io" where
  "enable_velocity_mode self axis = seq
     [send (''w axis'' @ str_int axis @ ''.controller.config.control_mode 2''),
      send (''w axis'' @ str_int axis @ ''.controller.config.input_mode 2''),
      send (''w axis'' @ str_int axis @ ''.controller.config.vel_ramp_rate 100''),
      send (''w axis'' @ str_int axis @ ''.controller.config.vel_limit 20'')]"

definition enable_velocity_mode_left :: "ODriveUART \<Rightarrow> unit io" where
  "enable_velocity_mode_left self = enable_velocity_mode self (left_axis self)"

definition enable_velocity_mode_right :: "ODriveUART \<Rightarrow> unit io" where
  "enable_velocity_mode_right self = enable_velocity_mode self (right_axis self)"

definition start :: "ODriveUART \<Rightarrow> int \<Rightarrow> unit io" where
  "start self axis = send (''w axis'' @ str_int axis @ ''.requested_state 8'')"

definition start_left :: "ODriveUART \<Rightarrow> unit io" where
  "start_left self = start self (left_axis self)"

definition start_right :: "ODriveUART \<Rightarrow> unit io" where
  "start_right self = start self (right_axis self)"

definition set_speed_rpm :: "ODriveUART \<Rightarrow> int \<Rightarrow> real \<Rightarrow> real \<Rightarrow> unit io" where
  "set_speed_rpm self axis rpm direction =
     (let rps = rpm / 60
      in send (''w axis'' @ str_int axis @ ''.controller.input_vel ''
               @ format_f 4 (rps * direction)))"

definition set_speed_rpm_left :: "ODriveUART \<Rightarrow> real \<Rightarrow> unit io" where
  "set_speed_rpm_left self rpm = set_speed_rpm self (left_axis self) rpm (dir_left self)"

definition set_speed_rpm_right :: "ODriveUART \<Rightarrow> real \<Rightarrow> unit io" where
  "set_speed_rpm_right self rpm = set_speed_rpm self (right_axis self) rpm (dir_right self)"

definition set_torque_nm :: "ODriveUART \<Rightarrow> int \<Rightarrow> real \<Rightarrow> real \<Rightarrow> unit io" where
  "set_torque_nm self axis nm direction =
     (let torque_bias = 0.05;
          adjusted_torque = nm * direction
            + (torque_bias * direction * (if nm \<ge> 0 then 1 else - 1))
      in seq [send (''c '' @ str_int axis @ '' '' @ format_f 4 adjusted_torque),
              send (''u '' @ str_int axis)])"

definition set_torque_nm_left :: "ODriveUART \<Rightarrow> real \<Rightarrow> unit io" where
  "set_torque_nm_left self nm = set_torque_nm self (left_axis self) nm (dir_left self)"

definition set_torque_nm_right :: "ODriveUART \<Rightarrow> real \<Rightarrow> unit io" where
  "set_torque_nm_right self nm = set_torque_nm self (right_axis self) nm (dir_right self)"

definition set_idle :: "ODriveUART \<Rightarrow> int \<Rightarrow> unit io" where
  "set_idle self axis = send (''w axis'' @ str_int axis @ ''.requested_state 1'')"

definition set_idle_left :: "ODriveUART \<Rightarrow> unit io" where
  "set_idle_left self = set_idle self (left_axis self)"

definition set_idle_right :: "ODriveUART \<Rightarrow> unit io" where
  "set_idle_right self = set_idle self (right_axis self)"

definition AXIS_STATE_CLOSED_LOOP_CONTROL :: int where
  "AXIS_STATE_CLOSED_LOOP_CONTROL = 8"

definition clear_errors :: "ODriveUART \<Rightarrow> int \<Rightarrow> unit io" where
  "clear_errors self axis = seq
     [send (''w axis'' @ str_int axis @ ''.error 0''),
      send (''w axis'' @ str_int axis @ ''.requested_state ''
            @ str_int AXIS_STATE_CLOSED_LOOP_CONTROL)]"

definition clear_errors_left :: "ODriveUART \<Rightarrow> unit io" where
  "clear_errors_left self = clear_errors self (left_axis self)"

definition clear_errors_right :: "ODriveUART \<Rightarrow> unit io" where
  "clear_errors_right self = clear_errors self (right_axis self)"

definition disable_velocity_ramping :: "ODriveUART \<Rightarrow> int \<Rightarrow> unit io" where
  "disable_velocity_ramping self axis =
     send (''w axis'' @ str_int axis @ ''.controller.config.input_mode 2'')"

definition disable_velocity_ramping_left :: "ODriveUART \<Rightarrow> unit io" where
  "disable_velocity_ramping_left self = disable_velocity_ramping self (left_axis self)"

definition disable_velocity_ramping_right :: "ODriveUART \<Rightarrow> unit io" where
  "disable_velocity_ramping_right self = disable_velocity_ramping self (right_axis self)"

definition set_current_limit :: "ODriveUART \<Rightarrow> int \<Rightarrow> real \<Rightarrow> unit io" where
  "set_current_limit self axis current_limit =
     send (''w axis'' @ str_int axis @ ''.motor.config.current_lim ''
           @ format_f 1 current_limit)"

text \<open>\<^verbatim>\<open>get_velocity_ramp\<close> returns the reply as a float, or \<^verbatim>\<open>None\<close> when it is not
  one; its callers only print the result, so the model keeps the query alone.\<close>

definition get_velocity_ramp :: "ODriveUART \<Rightarrow> int \<Rightarrow> unit io" where
  "get_velocity_ramp self axis =
     send (''r axis'' @ str_int axis @ ''.controller.config.vel_ramp_rate'')"


subsection \<open>\<^verbatim>\<open>MotorControl\<close>\<close>

text \<open>\<^verbatim>\<open>np.pi\<close>, the double nearest to the number.\<close>

definition np_pi :: real where
  "np_pi = 884279719003555 / 281474976710656"

definition RPM_TO_METERS_PER_SECOND :: "config \<Rightarrow> real" where
  "RPM_TO_METERS_PER_SECOND cfg = ROBOT_WHEEL_RADIUS_M cfg * 2 * np_pi / 60"

text \<open>Float division raises on a zero divisor.\<close>

definition py_truediv :: "real \<Rightarrow> real \<Rightarrow> real io" where
  "py_truediv a b = (if b = 0 then raise ZeroDivisionError else ret (a / b))"

text \<open>\<^verbatim>\<open>self.motor_controller.method(...)\<close>: an \<^verbatim>\<open>AttributeError\<close> while the
  attribute does not exist.\<close>

definition with_motor_controller :: "(ODriveUART \<Rightarrow> 'a io) \<Rightarrow> 'a io" where
  "with_motor_controller f = (\<lambda>s. case motor_controller s of
       None \<Rightarrow> (Inl AttributeError, s)
     | Some mc \<Rightarrow> f mc s)"

text \<open>\<^verbatim>\<open>if hasattr(self, 'motor_controller'): ...\<close>\<close>

definition if_has_motor_controller :: "(ODriveUART \<Rightarrow> unit io) \<Rightarrow> unit io" where
  "if_has_motor_controller f = (\<lambda>s. case motor_controller s of
       None \<Rightarrow> (Inr (), s)
     | Some mc \<Rightarrow> f mc s)"

definition set_is_idle :: "bool \<Rightarrow> unit io" where
  "set_is_idle b = (\<lambda>s. (Inr (), s\<lparr>is_idle := b\<rparr>))"

definition stop :: "unit io" where
  "stop = try_except
     (seq [with_motor_controller (\<lambda>mc. set_speed_rpm_left mc 0),
           with_motor_controller (\<lambda>mc. set_speed_rpm_right mc 0),
           with_motor_controller set_idle_left,
           with_motor_controller set_idle_right,
           set_is_idle True])
     (ret ())"

text \<open>The reason is only printed.\<close>

definition emergency_stop :: "string \<Rightarrow> unit io" where
  "emergency_stop reason = try_except stop
     (try_except
        (if_has_motor_controller (\<lambda>mc.
           seq [set_speed_rpm_left mc 0, set_speed_rpm_right mc 0]))
        (try_except
           (if_has_motor_controller (\<lambda>mc. seq [set_idle_left mc, set_idle_right mc]))
           (ret ())))"

text \<open>\<^verbatim>\<open>dump_motor_config\<close>: five queries for each axis, all inside one \<^verbatim>\<open>try\<close>; the
  replies are only printed.\<close>

definition dump_motor_config :: "unit io" where
  "dump_motor_config = try_except
     (with_motor_controller (\<lambda>mc. seq (concat (map (\<lambda>axis.
        [send (''r axis'' @ str_int axis @ ''.controller.config.control_mode''),
         send (''r axis'' @ str_int axis @ ''.controller.config.input_mode''),
         get_velocity_ramp mc axis,
         send (''r axis'' @ str_int axis @ ''.motor.config.current_lim''),
         send (''r axis'' @ str_int axis @ ''.controller.config.vel_limit'')])
        [left_axis mc, right_axis mc]))))
     (ret ())"

definition start_motors_velocity_mode :: "unit io" where
  "start_motors_velocity_mode = seq
     [with_motor_controller start_left,
      with_motor_controller start_right,
      with_motor_controller enable_velocity_mode_left,
      with_motor_controller enable_velocity_mode_right,
      with_motor_controller disable_velocity_ramping_left,
      with_motor_controller disable_velocity_ramping_right,
      with_motor_controller (\<lambda>mc. set_current_limit mc (left_axis mc) 40.0),
      with_motor_controller (\<lambda>mc. set_current_limit mc (right_axis mc) 40.0),
      with_motor_controller (\<lambda>mc. get_velocity_ramp mc (left_axis mc)),
      with_motor_controller (\<lambda>mc. get_velocity_ramp mc (right_axis mc)),
      dump_motor_config]"

definition start_motors_torque_mode :: "unit io" where
  "start_motors_torque_mode = seq
     [with_motor_controller start_left,
      with_motor_controller start_right,
      with_motor_controller enable_torque_mode_left,
      with_motor_controller enable_torque_mode_right]"

text \<open>The function \<^verbatim>\<open>reset_odrive\<close> of \<^verbatim>\<open>odrive_uart.py\<close> has an empty body (its
  statements are commented out), so the method that calls it only sleeps.\<close>

definition reset_odrive :: "unit io" where
  "reset_odrive = ret ()"

definition reset_and_initialize_motors :: "config \<Rightarrow> bool \<Rightarrow> unit io" where
  "reset_and_initialize_motors cfg torque_mode =
     andthen reset_odrive
       (try_except
          (bind (\<lambda>s. ODriveUART_init (MOTOR_CONTROL_SERIAL_PORT cfg)
                         (MOTOR_CONTROL_LEFT_MOTOR_AXIS cfg) (MOTOR_CONTROL_RIGHT_MOTOR_AXIS cfg)
                         (left_motor_dir s) (right_motor_dir s) s)
             (\<lambda>mc. seq
                [(\<lambda>s. (Inr (), s\<lparr>motor_controller := Some mc\<rparr>)),
                 with_motor_controller clear_errors_left,
                 with_motor_controller clear_errors_right,
                 if torque_mode then start_motors_torque_mode
                 else start_motors_velocity_mode]))
          (ret ()))"

text \<open>Lines 203 to 213 of \<^verbatim>\<open>motor_control.py\<close>: the clipping of a target to a symmetric
  maximum, and the wheel velocities of a differential drive.\<close>

definition clip :: "real \<Rightarrow> real \<Rightarrow> real" where
  "clip x m = max (min x m) (- m)"

definition angular_component :: "config \<Rightarrow> real \<Rightarrow> real" where
  "angular_component cfg yaw_rate_target_rad_s =
     (ROBOT_WHEEL_DIST_M cfg * yaw_rate_target_rad_s) / 2"

definition left_wheel_velocity :: "config \<Rightarrow> real \<Rightarrow> real \<Rightarrow> real" where
  "left_wheel_velocity cfg velocity_target_mps yaw_rate_target_rad_s =
     velocity_target_mps - angular_component cfg yaw_rate_target_rad_s"

definition right_wheel_velocity :: "config \<Rightarrow> real \<Rightarrow> real \<Rightarrow> real" where
  "right_wheel_velocity cfg velocity_target_mps yaw_rate_target_rad_s =
     velocity_target_mps + angular_component cfg yaw_rate_target_rad_s"

text \<open>Lines 184 to 200: the error check of every twentieth cycle. The result says
  whether \<^verbatim>\<open>set_linear_angular_velocities\<close> returns at this point.\<close>

definition periodic_error_check :: "config \<Rightarrow> bool io" where
  "periodic_error_check cfg = try_except
     (bind (with_motor_controller has_errors) (\<lambda>errors.
        if errors then
          andthen (seq [with_motor_controller dump_errors,
                        emergency_stop ''Motor controller errors detected'',
                        reset_and_initialize_motors cfg False])
                  (ret True)
        else ret False))
     (andthen (seq [emergency_stop ''Exception during error check'',
                    reset_and_initialize_motors cfg False])
              (ret True))"

text \<open>Lines 220 to 230: the two velocity commands. The result says whether
  \<^verbatim>\<open>set_linear_angular_velocities\<close> returns at this point.\<close>

definition set_motor_speeds :: "config \<Rightarrow> real \<Rightarrow> real \<Rightarrow> bool io" where
  "set_motor_speeds cfg left_wheel_rpm right_wheel_rpm = try_except
     (andthen (seq [with_motor_controller (\<lambda>mc. set_speed_rpm_left mc left_wheel_rpm),
                    with_motor_controller (\<lambda>mc. set_speed_rpm_right mc right_wheel_rpm)])
              (ret False))
     (andthen (seq [emergency_stop ''Exception while setting motor speeds'',
                    reset_and_initialize_motors cfg False])
              (ret True))"

text \<open>Lines 166 to 181: the stop on a zero target, which is followed (there is no
  \<^verbatim>\<open>return\<close>) by the test of \<open>is_idle\<close> that clears the errors of both axes, which
  requests closed-loop control again.\<close>

definition stop_on_zero_then_rearm :: "real \<Rightarrow> real \<Rightarrow> unit io" where
  "stop_on_zero_then_rearm velocity_target_mps yaw_rate_target_rad_s =
     andthen (if velocity_target_mps = 0 \<and> yaw_rate_target_rad_s = 0 then stop else ret ())
       (\<lambda>s. (if is_idle s
              then seq [with_motor_controller clear_errors_left,
                        with_motor_controller clear_errors_right,
                        set_is_idle False]
              else ret ()) s)"

text \<open>Lines 202 to 232: clip the targets, compute the wheel velocities, convert them to
  revolutions per minute, send them, count the cycle.\<close>

definition command_wheel_speeds :: "config \<Rightarrow> real \<Rightarrow> real \<Rightarrow> unit io" where
  "command_wheel_speeds cfg velocity_target_mps yaw_rate_target_rad_s =
     (let v = clip velocity_target_mps (MOTOR_CONTROL_MAX_SPEED_LINEAR_MPS cfg);
          yaw = clip yaw_rate_target_rad_s (MOTOR_CONTROL_MAX_SPEED_ANGULAR_RADPS cfg)
      in bind (py_truediv (left_wheel_velocity cfg v yaw) (RPM_TO_METERS_PER_SECOND cfg))
           (\<lambda>left_wheel_rpm.
         bind (py_truediv (right_wheel_velocity cfg v yaw) (RPM_TO_METERS_PER_SECOND cfg))
           (\<lambda>right_wheel_rpm.
         bind (set_motor_speeds cfg left_wheel_rpm right_wheel_rpm)
           (\<lambda>returned.
             if returned then ret ()
             else (\<lambda>s. (Inr (), s\<lparr>cycle_count := cycle_count s + 1\<rparr>))))))"

definition set_linear_angular_velocities :: "config \<Rightarrow> real \<Rightarrow> real \<Rightarrow> unit io" where
  "set_linear_angular_velocities cfg velocity_target_mps yaw_rate_target_rad_s = try_except
     (andthen (stop_on_zero_then_rearm velocity_target_mps yaw_rate_target_rad_s)
     (bind (\<lambda>s. (if cycle_count s mod 20 = 0 then periodic_error_check cfg else ret False) s)
        (\<lambda>returned.
          if returned then ret ()
          else command_wheel_speeds cfg velocity_target_mps yaw_rate_target_rad_s)))
     (emergency_stop ''Unhandled exception in set_linear_angular_velocities'')"

subsection \<open>What the port does next\<close>

definition coming :: "state \<Rightarrow> exchange" where
  "coming s = (case script s of [] \<Rightarrow> Reply [] | x # _ \<Rightarrow> x)"

definition advance :: "state \<Rightarrow> state" where
  "advance s = s\<lparr>script := tl (script s)\<rparr>"

definition write_ok :: "exchange \<Rightarrow> bool" where
  "write_ok x = (x \<noteq> PortClosed \<and> x \<noteq> WriteFails)"

text \<open>The port accepts the next \<open>n\<close> writes.\<close>

definition accepts :: "nat \<Rightarrow> state \<Rightarrow> bool" where
  "accepts n s = list_all write_ok (take n (script s))"

text \<open>The events of a call: what the trace has gained.\<close>

definition events_since :: "state \<Rightarrow> state \<Rightarrow> event list" where
  "events_since s s' = drop (length (trace s)) (trace s')"

definition wr :: "string \<Rightarrow> event list" where
  "wr command = [ResetInput, Write (command @ [newline])]"

definition qr :: "string \<Rightarrow> event list" where
  "qr command = [ResetInput, Write (command @ [newline]), ReadLine]"

text \<open>The four writes of \<^verbatim>\<open>stop\<close>: a zero velocity for the left and the right axis,
  then the idle state for the left and the right axis.\<close>

definition stop_events :: "ODriveUART \<Rightarrow> event list" where
  "stop_events mc =
     wr (''w axis'' @ str_int (left_axis mc) @ ''.controller.input_vel 0.0000'')
     @ wr (''w axis'' @ str_int (right_axis mc) @ ''.controller.input_vel 0.0000'')
     @ wr (''w axis'' @ str_int (left_axis mc) @ ''.requested_state 1'')
     @ wr (''w axis'' @ str_int (right_axis mc) @ ''.requested_state 1'')"

subsection \<open>Example values\<close>

text \<open>A configuration with the reference maxima, a controller object with axis 0 on the
  left, and a facade in its active state at a given cycle, facing a port with a given
  script.\<close>

definition cfg0 :: config where
  "cfg0 = \<lparr>MOTOR_CONTROL_SERIAL_PORT = ''/dev/ttyACM0'',
           MOTOR_CONTROL_LEFT_MOTOR_AXIS = 0, MOTOR_CONTROL_RIGHT_MOTOR_AXIS = 1,
           MOTOR_CONTROL_MAX_SPEED_LINEAR_MPS = 4, MOTOR_CONTROL_MAX_SPEED_ANGULAR_RADPS = 8,
           ROBOT_WHEEL_RADIUS_M = 1 / 10, ROBOT_WHEEL_DIST_M = 1 / 2\<rparr>"

definition mc0 :: ODriveUART where
  "mc0 = \<lparr>left_axis = 0, right_axis = 1, dir_left = 1, dir_right = 1\<rparr>"

definition running :: "int \<Rightarrow> exchange list \<Rightarrow> state" where
  "running c xs = \<lparr>is_idle = False, cycle_count = c, motor_controller = Some mc0,
                   left_motor_dir = 1, right_motor_dir = 1, trace = [], script = xs,
                   opens = []\<rparr>"

text \<open>Facts that a computation leaves the cycle count as it was.\<close>

named_theorems keeps_count

section \<open>Properties\<close>

subsection \<open>One exchange\<close>

lemma advance_fields [simp]:
  "trace (advance s) = trace s" "script (advance s) = tl (script s)"
  "is_idle (advance s) = is_idle s" "cycle_count (advance s) = cycle_count s"
  "motor_controller (advance s) = motor_controller s"
  "left_motor_dir (advance s) = left_motor_dir s"
  "right_motor_dir (advance s) = right_motor_dir s" "opens (advance s) = opens s"
  by (simp_all add: advance_def)

lemma advance_update [simp]:
  "advance (s\<lparr>trace := t\<rparr>) = (advance s)\<lparr>trace := t\<rparr>"
  "advance (s\<lparr>is_idle := b\<rparr>) = (advance s)\<lparr>is_idle := b\<rparr>"
  "advance (s\<lparr>cycle_count := c\<rparr>) = (advance s)\<lparr>cycle_count := c\<rparr>"
  "advance (s\<lparr>motor_controller := m\<rparr>) = (advance s)\<lparr>motor_controller := m\<rparr>"
  "advance (s\<lparr>opens := os\<rparr>) = (advance s)\<lparr>opens := os\<rparr>"
  by (simp_all add: advance_def)

lemma coming_update [simp]:
  "coming (s\<lparr>trace := t\<rparr>) = coming s" "coming (s\<lparr>is_idle := b\<rparr>) = coming s"
  "coming (s\<lparr>cycle_count := c\<rparr>) = coming s"
  "coming (s\<lparr>motor_controller := m\<rparr>) = coming s"
  "coming (s\<lparr>opens := os\<rparr>) = coming s"
  by (simp_all add: coming_def)

lemma next_exchange_eq: "next_exchange s = (Inr (coming s), advance s)"
  by (cases "script s") (simp_all add: next_exchange_def coming_def advance_def)

lemma send_command_eq:
  "send_command c s =
     (case coming s of
        PortClosed \<Rightarrow> (Inl SerialException, advance s)
      | WriteFails \<Rightarrow> (Inl SerialException, (advance s)\<lparr>trace := trace s @ [ResetInput]\<rparr>)
      | ReadFails \<Rightarrow>
          if is_query c then (Inl SerialException, (advance s)\<lparr>trace := trace s @ qr c\<rparr>)
          else (Inr None, (advance s)\<lparr>trace := trace s @ wr c\<rparr>)
      | Reply bs \<Rightarrow>
          if is_query c then
            (if is_ascii bs then Inr (Some (strip bs)) else Inl UnicodeDecodeError,
             (advance s)\<lparr>trace := trace s @ qr c\<rparr>)
          else (Inr None, (advance s)\<lparr>trace := trace s @ wr c\<rparr>))"
  by (simp add: send_command_def bind_def andthen_def next_exchange_eq emit_def raise_def
      ret_def qr_def wr_def split: exchange.split)

lemma events_since_append [simp]: "trace s' = trace s @ ev \<Longrightarrow> events_since s s' = ev"
  by (simp add: events_since_def)

lemma is_query_not_write [simp]:
  "\<not> is_query (CHR ''w'' # c)" "\<not> is_query (CHR ''c'' # c)" "\<not> is_query (CHR ''u'' # c)"
  by (simp_all add: is_query_def startswith_def)

lemma is_query_read [simp]: "is_query (CHR ''r'' # c)" "is_query (CHR ''f'' # c)"
  by (simp_all add: is_query_def startswith_def)

lemma running_fields [simp]:
  "is_idle (running c xs) = False" "cycle_count (running c xs) = c"
  "motor_controller (running c xs) = Some mc0" "trace (running c xs) = []"
  "script (running c xs) = xs" "opens (running c xs) = []"
  "left_motor_dir (running c xs) = 1" "right_motor_dir (running c xs) = 1"
  by (simp_all add: running_def)

lemma coming_running [simp]:
  "coming (running c []) = Reply []" "coming (running c (x # xs)) = x"
  by (simp_all add: coming_def)

lemma strip_Nil [simp]: "strip [] = []"
  by (simp add: strip_def)

lemma is_ascii_Nil [simp]: "is_ascii []"
  by (simp add: is_ascii_def)

text \<open>
  Claim C9. Whatever the command and the state, \<^verbatim>\<open>send_command\<close> performs an initial
  part of: discard the input buffer, write the command and a line feed, read a line. So
  the buffer is discarded before every write. It reads a line only for a command that
  starts with \<open>r\<close> or \<open>f\<close>. When it returns, it returns a string after exactly these three
  operations if the command is such a query, and \<^verbatim>\<open>None\<close> after exactly the first two
  if it is not. On a port that answers with ASCII bytes it does return: the reply,
  decoded and stripped, for a query, and \<^verbatim>\<open>None\<close> for another command.
\<close>

theorem send_command_reads_only_queries:
  "prefix (events_since s (snd (send_command command s))) (qr command)
   \<and> (ReadLine \<in> set (events_since s (snd (send_command command s))) \<longrightarrow> is_query command)
   \<and> (\<forall>v. fst (send_command command s) = Inr v \<longrightarrow>
          (if is_query command
           then v \<noteq> None \<and> events_since s (snd (send_command command s)) = qr command
           else v = None \<and> events_since s (snd (send_command command s)) = wr command))
   \<and> (\<forall>bs. coming s = Reply bs \<and> is_ascii bs \<longrightarrow>
          fst (send_command command s)
            = Inr (if is_query command then Some (strip bs) else None))"
  by (auto simp: send_command_eq qr_def wr_def events_since_def
      split: exchange.splits if_splits)

theorem send_command_reads_only_queries_witness:
  "fst (send_command ''f 0'' (running 1 [Reply (''1.5 -0.25'' @ [CHR 0x0D, newline])]))
     = Inr (Some ''1.5 -0.25'')
   \<and> events_since (running 1 [Reply (''1.5 -0.25'' @ [CHR 0x0D, newline])])
        (snd (send_command ''f 0'' (running 1 [Reply (''1.5 -0.25'' @ [CHR 0x0D, newline])])))
       = qr ''f 0''
   \<and> fst (send_command ''w axis0.error 0'' (running 1 [Reply []])) = Inr None
   \<and> events_since (running 1 [Reply []])
         (snd (send_command ''w axis0.error 0'' (running 1 [Reply []])))
       = wr ''w axis0.error 0''"
  using send_command_reads_only_queries
          [of "running 1 [Reply (''1.5 -0.25'' @ [CHR 0x0D, newline])]" "''f 0''"]
    send_command_reads_only_queries [of "running 1 [Reply []]" "''w axis0.error 0''"]
  by (simp add: is_ascii_def strip_def isspace_def newline_def)

text \<open>
  Claim C2, as the code has it. A query whose reply does not arrive as a complete line
  before the timeout does not fail (there is no timeout error): \<^verbatim>\<open>readline\<close> returns
  the bytes received so far, and \<^verbatim>\<open>send_command\<close> returns them, decoded as ASCII and
  stripped; that is the empty string when nothing was received.
\<close>

theorem send_command_timeout_returns_text:
  assumes "is_query command" and "coming s = Reply bs" and "newline \<notin> set bs"
    and "is_ascii bs"
  shows "fst (send_command command s) = Inr (Some (strip bs))
         \<and> (bs = [] \<longrightarrow> fst (send_command command s) = Inr (Some []))"
  using assms by (simp add: send_command_eq)

theorem send_command_timeout_returns_text_witness:
  "is_query ''r axis0.error'' \<and> coming (running 1 []) = Reply [] \<and> newline \<notin> set []
   \<and> is_ascii [] \<and> fst (send_command ''r axis0.error'' (running 1 [])) = Inr (Some [])"
  using send_command_timeout_returns_text [of "''r axis0.error''" "running 1 []" "[]"]
  by simp

text \<open>
  The claim C2 as it is written fails: at a timeout with nothing received, the query
  returns a value, the empty string.
\<close>

theorem send_command_timeout_counterexample:
  "fst (send_command ''r axis0.error'' (running 1 [Reply []])) = Inr (Some [])"
  by (simp add: send_command_eq)

text \<open>
  Claim C7. With a zero linear velocity, negating the angular rate exchanges the two
  wheel velocities.
\<close>

theorem wheel_velocities_antisymmetric:
  "(left_wheel_velocity cfg 0 (- a), right_wheel_velocity cfg 0 (- a))
   = (right_wheel_velocity cfg 0 a, left_wheel_velocity cfg 0 a)"
  by (simp add: left_wheel_velocity_def right_wheel_velocity_def angular_component_def)

lemma filter_dropWhile_disjoint:
  "(\<And>x. Q x \<Longrightarrow> \<not> P x) \<Longrightarrow> filter P (dropWhile Q xs) = filter P xs"
  by (induction xs) auto

lemma isspace_not_digit: "isspace c \<Longrightarrow> \<not> isdigit c"
  by (auto simp: isspace_def isdigit_def)

lemma filter_isdigit_strip [simp]: "filter isdigit (strip bs) = filter isdigit bs"
proof -
  have "filter isdigit (strip bs)
        = rev (filter isdigit (dropWhile isspace (rev (dropWhile isspace bs))))"
    by (simp add: strip_def rev_filter)
  also have "\<dots> = rev (filter isdigit (rev (dropWhile isspace bs)))"
    by (simp add: filter_dropWhile_disjoint isspace_not_digit)
  also have "\<dots> = filter isdigit (dropWhile isspace bs)"
    by (simp add: rev_filter)
  finally show ?thesis
    by (simp add: filter_dropWhile_disjoint isspace_not_digit)
qed

lemma digit_value_nonneg: "isdigit c \<Longrightarrow> 0 \<le> digit_value c"
  by (auto simp: isdigit_def digit_value_def)

lemma foldl_digits_nonneg:
  "0 \<le> acc \<Longrightarrow> \<forall>c \<in> set ds. isdigit c
   \<Longrightarrow> 0 \<le> foldl (\<lambda>acc c. 10 * acc + digit_value c) acc ds"
  by (induction ds arbitrary: acc) (auto simp: digit_value_nonneg)

lemma int_of_digits_nonneg: "0 \<le> int_of_digits (filter isdigit bs)"
  by (simp add: int_of_digits_def foldl_digits_nonneg)

lemma cleaned_int_reply:
  "cleaned_int (Some (strip bs)) =
     (if filter isdigit bs = [] then Inl ValueError
      else Inr (int_of_digits (filter isdigit bs)))"
  by (simp add: cleaned_int_def py_int_def)

lemma str_digits_small: "n < 10 \<Longrightarrow> str_digits k n = [digit_char n]"
  by (cases k) auto

lemma str_int_small [simp]: "str_int 0 = ''0''" "str_int 1 = ''1''" "str_int 8 = ''8''"
  by (simp_all add: str_int_def str_nat_def str_digits_small digit_char_def)

text \<open>
  Claim C6. When the port answers the query of the error register with ASCII bytes,
  \<^verbatim>\<open>get_errors\<close> keeps the decimal digits of the reply and returns their value, and it
  returns \<open>-1\<close> exactly when the reply has no digit (so cannot be read as an integer);
  in that case \<^verbatim>\<open>has_errors\<close> returns \<^verbatim>\<open>True\<close>.
\<close>

theorem get_errors_unreadable_is_fault:
  assumes "coming s = Reply bs" and "is_ascii bs"
  shows "fst (get_errors self axis s)
           = Inr (if filter isdigit bs = [] then - 1 else int_of_digits (filter isdigit bs),
                  ''Unknown error'')
         \<and> events_since s (snd (get_errors self axis s))
             = qr (''r axis'' @ str_int axis @ ''.error'')
         \<and> (fst (get_errors self axis s) = Inr (- 1, ''Unknown error'')
              \<longleftrightarrow> filter isdigit bs = [])
         \<and> (filter isdigit bs = [] \<longrightarrow> fst (has_errors self s) = Inr True)"
proof -
  have "0 \<le> int_of_digits (filter isdigit bs)" by (rule int_of_digits_nonneg)
  then have ne: "int_of_digits (filter isdigit bs) \<noteq> - 1" by simp
  show ?thesis
    using assms ne
    by (simp add: get_errors_def has_errors_def bind_def send_command_eq cleaned_int_reply
        ret_def)
qed

theorem get_errors_unreadable_is_fault_witness:
  "coming (running 1 [Reply ''abc'']) = Reply ''abc'' \<and> is_ascii ''abc''
   \<and> fst (get_errors mc0 0 (running 1 [Reply ''abc''])) = Inr (- 1, ''Unknown error'')
   \<and> fst (has_errors mc0 (running 1 [Reply ''abc''])) = Inr True"
  using get_errors_unreadable_is_fault [of "running 1 [Reply ''abc'']" "''abc''" mc0 0]
  by (simp add: is_ascii_def isdigit_def)

text \<open>
  Claim C10. \<^verbatim>\<open>has_errors\<close> performs an initial part of: query \<open>r axis0.error\<close>,
  query \<open>r axis1.error\<close>, whatever the axes of the object are. It returns \<^verbatim>\<open>True\<close>
  after the first query alone when that reply has no digit or a value other than zero;
  when the first reply reads as zero it makes the second query and returns whether the
  second reply has no digit or a value other than zero. It returns \<^verbatim>\<open>False\<close> only
  after both queries, both replies reading as zero.
\<close>

theorem has_errors_fixed_axes:
  "prefix (events_since s (snd (has_errors self s)))
          (qr ''r axis0.error'' @ qr ''r axis1.error'')
   \<and> (\<forall>b0. coming s = Reply b0 \<and> is_ascii b0
            \<and> (filter isdigit b0 = [] \<or> int_of_digits (filter isdigit b0) \<noteq> 0)
        \<longrightarrow> fst (has_errors self s) = Inr True
            \<and> events_since s (snd (has_errors self s)) = qr ''r axis0.error'')
   \<and> (\<forall>b0 b1. coming s = Reply b0 \<and> is_ascii b0
            \<and> filter isdigit b0 \<noteq> [] \<and> int_of_digits (filter isdigit b0) = 0
            \<and> coming (advance s) = Reply b1 \<and> is_ascii b1
        \<longrightarrow> fst (has_errors self s)
              = Inr (filter isdigit b1 = [] \<or> int_of_digits (filter isdigit b1) \<noteq> 0)
            \<and> events_since s (snd (has_errors self s))
              = qr ''r axis0.error'' @ qr ''r axis1.error'')
   \<and> (fst (has_errors self s) = Inr False
        \<longrightarrow> events_since s (snd (has_errors self s))
              = qr ''r axis0.error'' @ qr ''r axis1.error''
            \<and> (\<exists>b0 b1. coming s = Reply b0 \<and> coming (advance s) = Reply b1
                  \<and> filter isdigit b0 \<noteq> [] \<and> int_of_digits (filter isdigit b0) = 0
                  \<and> filter isdigit b1 \<noteq> [] \<and> int_of_digits (filter isdigit b1) = 0))"
  by (auto simp: has_errors_def bind_def send_command_eq cleaned_int_reply ret_def raise_def
      qr_def events_since_def split: exchange.splits if_splits)

theorem has_errors_fixed_axes_witness:
  "fst (has_errors \<lparr>left_axis = 5, right_axis = 7, dir_left = 1, dir_right = 1\<rparr>
          (running 1 [Reply ''0x10''])) = Inr True
   \<and> events_since (running 1 [Reply ''0x10''])
        (snd (has_errors \<lparr>left_axis = 5, right_axis = 7, dir_left = 1, dir_right = 1\<rparr>
               (running 1 [Reply ''0x10''])))
      = qr ''r axis0.error''
   \<and> fst (has_errors mc0 (running 1 [Reply ''0'', Reply ''0''])) = Inr False
   \<and> events_since (running 1 [Reply ''0'', Reply ''0''])
        (snd (has_errors mc0 (running 1 [Reply ''0'', Reply ''0''])))
      = qr ''r axis0.error'' @ qr ''r axis1.error''"
  using has_errors_fixed_axes [of "running 1 [Reply ''0x10'']"
          "\<lparr>left_axis = 5, right_axis = 7, dir_left = 1, dir_right = 1\<rparr>"]
    has_errors_fixed_axes [of "running 1 [Reply ''0'', Reply ''0'']" mc0]
  by (simp add: is_ascii_def isdigit_def int_of_digits_def digit_value_def coming_def)

subsection \<open>Writes that the port accepts\<close>

lemma send_eq:
  "\<not> is_query c \<Longrightarrow> send c s =
     (case coming s of
        PortClosed \<Rightarrow> (Inl SerialException, advance s)
      | WriteFails \<Rightarrow> (Inl SerialException, (advance s)\<lparr>trace := trace s @ [ResetInput]\<rparr>)
      | _ \<Rightarrow> (Inr (), (advance s)\<lparr>trace := trace s @ wr c\<rparr>))"
  by (simp add: send_def andthen_def bind_def send_command_eq ret_def split: exchange.split)

lemma send_accepted:
  "\<not> is_query c \<Longrightarrow> write_ok (coming s)
   \<Longrightarrow> send c s = (Inr (), (advance s)\<lparr>trace := trace s @ wr c\<rparr>)"
  by (simp add: send_eq write_ok_def split: exchange.split)

lemma accepts_unfold:
  "accepts n s = (if n = 0 then True else write_ok (coming s) \<and> accepts (n - 1) (advance s))"
  by (cases n; cases "script s") (simp_all add: accepts_def coming_def write_ok_def)

lemma accepts_update [simp]:
  "accepts n (s\<lparr>trace := t\<rparr>) = accepts n s" "accepts n (s\<lparr>is_idle := b\<rparr>) = accepts n s"
  "accepts n (s\<lparr>cycle_count := c\<rparr>) = accepts n s"
  "accepts n (s\<lparr>motor_controller := m\<rparr>) = accepts n s"
  "accepts n (s\<lparr>opens := os\<rparr>) = accepts n s"
  by (simp_all add: accepts_def)

lemma accepts_running_Nil [simp]: "accepts n (running c [])"
  by (simp add: accepts_def)

lemma ret_apply: "ret x s = (Inr x, s)"
  by (simp add: ret_def)

lemma raise_apply: "raise e s = (Inl e, s)"
  by (simp add: raise_def)

lemma bind_apply:
  "bind m k s = (case m s of (Inl e, s') \<Rightarrow> (Inl e, s') | (Inr x, s') \<Rightarrow> k x s')"
  by (simp add: bind_def)

lemma andthen_apply:
  "andthen m k s = (case m s of (Inl e, s') \<Rightarrow> (Inl e, s') | (Inr x, s') \<Rightarrow> k s')"
  by (simp add: andthen_def bind_def)

lemma try_except_apply:
  "try_except m h s = (case m s of (Inl e, s') \<Rightarrow> h s' | (Inr x, s') \<Rightarrow> (Inr x, s'))"
  by (simp add: try_except_def)

lemmas io_apply = ret_apply raise_apply bind_apply andthen_apply try_except_apply

lemma str_digits_unfold:
  "str_digits k n = (if k = 0 \<or> n < 10 then [digit_char n]
                     else str_digits (k - 1) (n div 10) @ [digit_char n])"
  by (cases k) auto

lemma replicate_unfold: "replicate n x = (if n = 0 then [] else x # replicate (n - 1) x)"
  by (cases n) auto

lemmas format_f_eval = format_f_def Let_def round_half_even_def str_nat_def str_digits_unfold
  zero_pad_def digit_char_def replicate_unfold

lemma format_f_4_zero [simp]: "format_f 4 0 = ''0.0000''"
  by (simp add: format_f_eval)

text \<open>
  Claim C8. On a port that accepts two writes, \<^verbatim>\<open>set_torque_nm\<close> writes
  \<open>c axis torque\<close> and then \<open>u axis\<close>, where the torque is the product of the value and
  the direction plus a bias of 0.05 times the direction, negated when the value is
  negative; with a direction of 1 or -1 the magnitude of the torque written is that of
  the value plus 0.05.
\<close>

theorem set_torque_nm_bias_then_update:
  assumes "accepts 2 s"
  shows "set_torque_nm self axis nm d s
           = (Inr (), (advance (advance s))
                \<lparr>trace := trace s
                   @ wr (''c '' @ str_int axis @ '' ''
                         @ format_f 4 (nm * d + 0.05 * d * (if 0 \<le> nm then 1 else - 1)))
                   @ wr (''u '' @ str_int axis)\<rparr>)
         \<and> (\<bar>d\<bar> = 1 \<longrightarrow> \<bar>nm * d + 0.05 * d * (if 0 \<le> nm then 1 else - 1)\<bar> = \<bar>nm\<bar> + 0.05)"
proof -
  from assms have a: "write_ok (coming s)" "write_ok (coming (advance s))"
    by (simp_all add: accepts_unfold [of _ s] accepts_unfold [of _ "advance s"])
  have "set_torque_nm self axis nm d s
           = (Inr (), (advance (advance s))
                \<lparr>trace := trace s
                   @ wr (''c '' @ str_int axis @ '' ''
                         @ format_f 4 (nm * d + 0.05 * d * (if 0 \<le> nm then 1 else - 1)))
                   @ wr (''u '' @ str_int axis)\<rparr>)"
    using a by (simp add: set_torque_nm_def Let_def io_apply send_accepted)
  moreover have "\<bar>d\<bar> = 1 \<longrightarrow> \<bar>nm * d + 0.05 * d * (if 0 \<le> nm then 1 else - 1)\<bar> = \<bar>nm\<bar> + 0.05"
    by (auto simp: abs_if split: if_splits)
  ultimately show ?thesis by blast
qed

theorem set_torque_nm_bias_then_update_witness:
  "accepts 2 (running 1 [])
   \<and> events_since (running 1 []) (snd (set_torque_nm mc0 1 1 (- 1) (running 1 [])))
     = wr ''c 1 -1.0500'' @ wr ''u 1''"
  using set_torque_nm_bias_then_update [of "running 1 []" mc0 1 1 "- 1"]
  by (simp add: format_f_eval)

subsection \<open>Stopping\<close>

lemma send_cases:
  "\<not> is_query c \<Longrightarrow> send c s =
     (if coming s = PortClosed then (Inl SerialException, advance s)
      else if coming s = WriteFails
        then (Inl SerialException, (advance s)\<lparr>trace := trace s @ [ResetInput]\<rparr>)
      else (Inr (), (advance s)\<lparr>trace := trace s @ wr c\<rparr>))"
  by (simp add: send_eq split: exchange.split)

lemma with_motor_controller_Some:
  "motor_controller s = Some mc \<Longrightarrow> with_motor_controller f s = f mc s"
  by (simp add: with_motor_controller_def)

lemma set_speed_rpm_zero:
  "set_speed_rpm self axis 0 d
   = send (''w axis'' @ str_int axis @ ''.controller.input_vel 0.0000'')"
  by (simp add: set_speed_rpm_def)

text \<open>
  Claim C3, as the code has it. \<^verbatim>\<open>stop\<close> never raises. It performs an initial part of
  its four writes (zero velocity left and right, then idle left and right), and it
  records \<open>is_idle\<close> exactly when all four were performed: after a write that fails,
  \<open>is_idle\<close> is what it was. On a port that accepts four writes, all four are performed
  and \<open>is_idle\<close> is recorded.
\<close>

theorem stop_records_idle_after_four_writes:
  assumes "motor_controller s = Some mc"
  shows "fst (stop s) = Inr ()
         \<and> prefix (events_since s (snd (stop s))) (stop_events mc)
         \<and> is_idle (snd (stop s))
             = (is_idle s \<or> events_since s (snd (stop s)) = stop_events mc)
         \<and> (accepts 4 s
              \<longrightarrow> events_since s (snd (stop s)) = stop_events mc \<and> is_idle (snd (stop s)))"
  using assms
  by (simp add: stop_def io_apply with_motor_controller_def set_speed_rpm_left_def
      set_speed_rpm_right_def set_speed_rpm_zero set_idle_left_def set_idle_right_def
      set_idle_def send_cases set_is_idle_def events_since_def stop_events_def wr_def
      accepts_unfold [of _ s] accepts_unfold [of _ "advance s"]
      accepts_unfold [of _ "advance (advance s)"]
      accepts_unfold [of _ "advance (advance (advance s))"] write_ok_def)

theorem stop_records_idle_after_four_writes_witness:
  "motor_controller (running 1 []) = Some mc0
   \<and> fst (stop (running 1 [])) = Inr ()
   \<and> events_since (running 1 []) (snd (stop (running 1 []))) = stop_events mc0
   \<and> is_idle (snd (stop (running 1 [])))"
  using stop_records_idle_after_four_writes [of "running 1 []" mc0]
  by simp

text \<open>
  The claim C3 as it is written fails: when the first write raises, \<^verbatim>\<open>stop\<close> returns
  with \<open>is_idle\<close> still false.
\<close>

theorem stop_idle_not_recorded_counterexample:
  "fst (stop (running 1 [WriteFails])) = Inr ()
   \<and> \<not> is_idle (snd (stop (running 1 [WriteFails])))"
  by (simp add: stop_def io_apply with_motor_controller_def set_speed_rpm_left_def
      set_speed_rpm_zero send_cases)

subsection \<open>The velocity command\<close>

lemma abs_clip: "0 \<le> m \<Longrightarrow> \<bar>clip x m\<bar> \<le> m"
  by (auto simp: clip_def)

lemma wheel_velocity_bound:
  assumes "0 \<le> ml" and "0 \<le> ma" and "0 \<le> ROBOT_WHEEL_DIST_M cfg"
  shows "\<bar>left_wheel_velocity cfg (clip v ml) (clip w ma)\<bar>
           \<le> ml + ROBOT_WHEEL_DIST_M cfg * ma / 2"
    and "\<bar>right_wheel_velocity cfg (clip v ml) (clip w ma)\<bar>
           \<le> ml + ROBOT_WHEEL_DIST_M cfg * ma / 2"
proof -
  have a: "\<bar>clip v ml\<bar> \<le> ml" and b: "\<bar>clip w ma\<bar> \<le> ma"
    using assms by (simp_all add: abs_clip)
  have "\<bar>ROBOT_WHEEL_DIST_M cfg * clip w ma\<bar> = ROBOT_WHEEL_DIST_M cfg * \<bar>clip w ma\<bar>"
    using assms(3) by (simp add: abs_mult)
  also have "\<dots> \<le> ROBOT_WHEEL_DIST_M cfg * ma"
    using b assms(3) by (rule mult_left_mono)
  finally have c: "\<bar>ROBOT_WHEEL_DIST_M cfg * clip w ma\<bar> \<le> ROBOT_WHEEL_DIST_M cfg * ma" .
  show "\<bar>left_wheel_velocity cfg (clip v ml) (clip w ma)\<bar>
           \<le> ml + ROBOT_WHEEL_DIST_M cfg * ma / 2"
    using a c by (simp add: left_wheel_velocity_def angular_component_def)
  show "\<bar>right_wheel_velocity cfg (clip v ml) (clip w ma)\<bar>
           \<le> ml + ROBOT_WHEEL_DIST_M cfg * ma / 2"
    using a c by (simp add: right_wheel_velocity_def angular_component_def)
qed

lemma RPM_TO_METERS_PER_SECOND_zero:
  "RPM_TO_METERS_PER_SECOND cfg = 0 \<longleftrightarrow> ROBOT_WHEEL_RADIUS_M cfg = 0"
  by (simp add: RPM_TO_METERS_PER_SECOND_def np_pi_def)

lemma stop_on_zero_then_rearm_skip:
  "\<not> is_idle s \<Longrightarrow> \<not> (v = 0 \<and> w = 0) \<Longrightarrow> stop_on_zero_then_rearm v w s = (Inr (), s)"
  by (auto simp: stop_on_zero_then_rearm_def io_apply)

lemma command_wheel_speeds_accepted:
  assumes "motor_controller s = Some mc" and "accepts 2 s"
    and "ROBOT_WHEEL_RADIUS_M cfg \<noteq> 0"
  shows "command_wheel_speeds cfg v w s
     = (Inr (), (advance (advance s))
          \<lparr>trace := trace s
             @ wr (''w axis'' @ str_int (left_axis mc) @ ''.controller.input_vel ''
                   @ format_f 4
                       (left_wheel_velocity cfg
                          (clip v (MOTOR_CONTROL_MAX_SPEED_LINEAR_MPS cfg))
                          (clip w (MOTOR_CONTROL_MAX_SPEED_ANGULAR_RADPS cfg))
                        / RPM_TO_METERS_PER_SECOND cfg / 60 * dir_left mc))
             @ wr (''w axis'' @ str_int (right_axis mc) @ ''.controller.input_vel ''
                   @ format_f 4
                       (right_wheel_velocity cfg
                          (clip v (MOTOR_CONTROL_MAX_SPEED_LINEAR_MPS cfg))
                          (clip w (MOTOR_CONTROL_MAX_SPEED_ANGULAR_RADPS cfg))
                        / RPM_TO_METERS_PER_SECOND cfg / 60 * dir_right mc)),
           cycle_count := cycle_count s + 1\<rparr>)"
proof -
  from assms(2) have a: "write_ok (coming s)" "write_ok (coming (advance s))"
    by (simp_all add: accepts_unfold [of _ s] accepts_unfold [of _ "advance s"])
  show ?thesis
    using assms(1,3) a
    by (simp add: command_wheel_speeds_def Let_def io_apply py_truediv_def
        RPM_TO_METERS_PER_SECOND_zero set_motor_speeds_def with_motor_controller_def
        set_speed_rpm_left_def set_speed_rpm_right_def set_speed_rpm_def send_accepted)
qed

text \<open>
  Claim C5. For all targets, when the velocity command is reached on a port that
  accepts two writes, the two values written are the wheel velocities of the clipped
  targets, converted to revolutions per second and multiplied by the direction of the
  axis; with maxima and a wheel distance that are not negative, each wheel velocity is
  at most the linear maximum plus half the wheel distance times the angular maximum in
  magnitude. A call with a target other than zero, on a facade that is not idle and at a
  cycle without error check, is this velocity command.
\<close>

theorem wheel_speeds_of_clipped_targets:
  assumes "motor_controller s = Some mc" and "accepts 2 s"
    and "ROBOT_WHEEL_RADIUS_M cfg \<noteq> 0"
    and "0 \<le> MOTOR_CONTROL_MAX_SPEED_LINEAR_MPS cfg"
    and "0 \<le> MOTOR_CONTROL_MAX_SPEED_ANGULAR_RADPS cfg"
    and "0 \<le> ROBOT_WHEEL_DIST_M cfg"
    and "L = left_wheel_velocity cfg (clip v (MOTOR_CONTROL_MAX_SPEED_LINEAR_MPS cfg))
               (clip w (MOTOR_CONTROL_MAX_SPEED_ANGULAR_RADPS cfg))"
    and "R = right_wheel_velocity cfg (clip v (MOTOR_CONTROL_MAX_SPEED_LINEAR_MPS cfg))
               (clip w (MOTOR_CONTROL_MAX_SPEED_ANGULAR_RADPS cfg))"
  shows "command_wheel_speeds cfg v w s
           = (Inr (), (advance (advance s))
               \<lparr>trace := trace s
                  @ wr (''w axis'' @ str_int (left_axis mc) @ ''.controller.input_vel ''
                        @ format_f 4 (L / RPM_TO_METERS_PER_SECOND cfg / 60 * dir_left mc))
                  @ wr (''w axis'' @ str_int (right_axis mc) @ ''.controller.input_vel ''
                        @ format_f 4 (R / RPM_TO_METERS_PER_SECOND cfg / 60 * dir_right mc)),
                cycle_count := cycle_count s + 1\<rparr>)
         \<and> \<bar>L\<bar> \<le> MOTOR_CONTROL_MAX_SPEED_LINEAR_MPS cfg
                  + ROBOT_WHEEL_DIST_M cfg * MOTOR_CONTROL_MAX_SPEED_ANGULAR_RADPS cfg / 2
         \<and> \<bar>R\<bar> \<le> MOTOR_CONTROL_MAX_SPEED_LINEAR_MPS cfg
                  + ROBOT_WHEEL_DIST_M cfg * MOTOR_CONTROL_MAX_SPEED_ANGULAR_RADPS cfg / 2
         \<and> (\<not> is_idle s \<and> \<not> (v = 0 \<and> w = 0) \<and> cycle_count s mod 20 \<noteq> 0
              \<longrightarrow> set_linear_angular_velocities cfg v w s = command_wheel_speeds cfg v w s)"
proof -
  note cmd = command_wheel_speeds_accepted [OF assms(1-3), of v w]
  have "\<not> is_idle s \<and> \<not> (v = 0 \<and> w = 0) \<and> cycle_count s mod 20 \<noteq> 0
        \<longrightarrow> set_linear_angular_velocities cfg v w s = command_wheel_speeds cfg v w s"
    by (auto simp: set_linear_angular_velocities_def io_apply stop_on_zero_then_rearm_skip cmd)
  then show ?thesis
    using cmd wheel_velocity_bound [OF assms(4-6), of v w] assms(7,8) by simp
qed

lemma cfg0_fields [simp]:
  "MOTOR_CONTROL_SERIAL_PORT cfg0 = ''/dev/ttyACM0''"
  "MOTOR_CONTROL_LEFT_MOTOR_AXIS cfg0 = 0" "MOTOR_CONTROL_RIGHT_MOTOR_AXIS cfg0 = 1"
  "MOTOR_CONTROL_MAX_SPEED_LINEAR_MPS cfg0 = 4" "MOTOR_CONTROL_MAX_SPEED_ANGULAR_RADPS cfg0 = 8"
  "ROBOT_WHEEL_RADIUS_M cfg0 = 1 / 10" "ROBOT_WHEEL_DIST_M cfg0 = 1 / 2"
  by (simp_all add: cfg0_def)

lemma mc0_fields [simp]:
  "left_axis mc0 = 0" "right_axis mc0 = 1" "dir_left mc0 = 1" "dir_right mc0 = 1"
  by (simp_all add: mc0_def)

lemma wheel_velocities_example:
  "left_wheel_velocity cfg0 (clip 10 4) (clip (- 20) 8) = 6"
  "right_wheel_velocity cfg0 (clip 10 4) (clip (- 20) 8) = 2"
  by (simp_all add: left_wheel_velocity_def right_wheel_velocity_def angular_component_def
      clip_def)

theorem wheel_speeds_of_clipped_targets_witness:
  "motor_controller (running 1 []) = Some mc0 \<and> accepts 2 (running 1 [])
   \<and> ROBOT_WHEEL_RADIUS_M cfg0 \<noteq> 0
   \<and> 0 \<le> MOTOR_CONTROL_MAX_SPEED_LINEAR_MPS cfg0
   \<and> 0 \<le> MOTOR_CONTROL_MAX_SPEED_ANGULAR_RADPS cfg0 \<and> 0 \<le> ROBOT_WHEEL_DIST_M cfg0
   \<and> events_since (running 1 [])
        (snd (set_linear_angular_velocities cfg0 10 (- 20) (running 1 [])))
      = wr ''w axis0.controller.input_vel 9.5493'' @ wr ''w axis1.controller.input_vel 3.1831''
   \<and> \<bar>6 :: real\<bar> \<le> MOTOR_CONTROL_MAX_SPEED_LINEAR_MPS cfg0
         + ROBOT_WHEEL_DIST_M cfg0 * MOTOR_CONTROL_MAX_SPEED_ANGULAR_RADPS cfg0 / 2"
proof -
  have h: "motor_controller (running 1 []) = Some mc0" "accepts 2 (running 1 [])"
    "ROBOT_WHEEL_RADIUS_M cfg0 \<noteq> 0" "0 \<le> MOTOR_CONTROL_MAX_SPEED_LINEAR_MPS cfg0"
    "0 \<le> MOTOR_CONTROL_MAX_SPEED_ANGULAR_RADPS cfg0" "0 \<le> ROBOT_WHEEL_DIST_M cfg0"
    by simp_all
  have l: "6 = left_wheel_velocity cfg0 (clip 10 (MOTOR_CONTROL_MAX_SPEED_LINEAR_MPS cfg0))
                 (clip (- 20) (MOTOR_CONTROL_MAX_SPEED_ANGULAR_RADPS cfg0))"
    and r: "2 = right_wheel_velocity cfg0 (clip 10 (MOTOR_CONTROL_MAX_SPEED_LINEAR_MPS cfg0))
                 (clip (- 20) (MOTOR_CONTROL_MAX_SPEED_ANGULAR_RADPS cfg0))"
    by (simp_all add: wheel_velocities_example)
  note t = wheel_speeds_of_clipped_targets [OF h l r]
  have g: "\<not> is_idle (running 1 []) \<and> \<not> (10 = (0::real) \<and> - 20 = (0::real))
           \<and> cycle_count (running 1 []) mod 20 \<noteq> 0"
    by simp
  from t g have "set_linear_angular_velocities cfg0 10 (- 20) (running 1 [])
      = (Inr (), (advance (advance (running 1 [])))
               \<lparr>trace := trace (running 1 [])
                  @ wr (''w axis'' @ str_int (left_axis mc0) @ ''.controller.input_vel ''
                        @ format_f 4 (6 / RPM_TO_METERS_PER_SECOND cfg0 / 60 * dir_left mc0))
                  @ wr (''w axis'' @ str_int (right_axis mc0) @ ''.controller.input_vel ''
                        @ format_f 4 (2 / RPM_TO_METERS_PER_SECOND cfg0 / 60 * dir_right mc0)),
                cycle_count := cycle_count (running 1 []) + 1\<rparr>)"
    by metis
  then have "events_since (running 1 [])
        (snd (set_linear_angular_velocities cfg0 10 (- 20) (running 1 [])))
      = wr ''w axis0.controller.input_vel 9.5493'' @ wr ''w axis1.controller.input_vel 3.1831''"
    by (simp add: events_since_def RPM_TO_METERS_PER_SECOND_def np_pi_def format_f_eval)
  moreover from t have "\<bar>6 :: real\<bar> \<le> MOTOR_CONTROL_MAX_SPEED_LINEAR_MPS cfg0
         + ROBOT_WHEEL_DIST_M cfg0 * MOTOR_CONTROL_MAX_SPEED_ANGULAR_RADPS cfg0 / 2"
    by blast
  ultimately show ?thesis using h by blast
qed

subsection \<open>The zero target\<close>

text \<open>
  Claim C1 fails on the code. On an active facade, at a cycle without error check and
  with a port that accepts every write, the call with both targets zero does run
  \<^verbatim>\<open>stop\<close>, but it goes on: since \<open>is_idle\<close> is now true it clears the errors of both
  axes, which requests closed-loop control (state 8) again, sets \<open>is_idle\<close> to false,
  and then writes a velocity setpoint to each axis.
\<close>

theorem zero_target_rearms_after_stop:
  "fst (set_linear_angular_velocities cfg0 0 0 (running 1 [])) = Inr ()
   \<and> \<not> is_idle (snd (set_linear_angular_velocities cfg0 0 0 (running 1 [])))
   \<and> events_since (running 1 [])
        (snd (set_linear_angular_velocities cfg0 0 0 (running 1 [])))
      = wr ''w axis0.controller.input_vel 0.0000''
        @ wr ''w axis1.controller.input_vel 0.0000''
        @ wr ''w axis0.requested_state 1''
        @ wr ''w axis1.requested_state 1''
        @ wr ''w axis0.error 0''
        @ wr ''w axis0.requested_state 8''
        @ wr ''w axis1.error 0''
        @ wr ''w axis1.requested_state 8''
        @ wr ''w axis0.controller.input_vel 0.0000''
        @ wr ''w axis1.controller.input_vel 0.0000''"
  by (simp add: set_linear_angular_velocities_def stop_on_zero_then_rearm_def stop_def
      io_apply with_motor_controller_def set_speed_rpm_left_def set_speed_rpm_right_def
      set_speed_rpm_def set_idle_left_def set_idle_right_def set_idle_def set_is_idle_def
      clear_errors_left_def clear_errors_right_def clear_errors_def
      AXIS_STATE_CLOSED_LOOP_CONTROL_def command_wheel_speeds_def Let_def py_truediv_def
      RPM_TO_METERS_PER_SECOND_zero left_wheel_velocity_def right_wheel_velocity_def
      angular_component_def clip_def set_motor_speeds_def send_accepted coming_def
      write_ok_def events_since_def)

subsection \<open>The periodic error check\<close>

lemma stop_returns: "fst (stop s) = Inr ()"
  by (simp add: stop_def try_except_def ret_def split: prod.split sum.split)

lemma emergency_stop_is_stop: "emergency_stop reason s = stop s"
  using stop_returns [of s]
  by (cases "stop s") (auto simp: emergency_stop_def try_except_def)

lemma emergency_stop_returns: "fst (emergency_stop reason s) = Inr ()"
  by (simp add: emergency_stop_is_stop stop_returns)

lemma dump_motor_config_returns: "fst (dump_motor_config s) = Inr ()"
  by (simp add: dump_motor_config_def try_except_def ret_def split: prod.split sum.split)

lemma reset_and_initialize_motors_returns:
  "fst (reset_and_initialize_motors cfg torque_mode s) = Inr ()"
  by (simp add: reset_and_initialize_motors_def reset_odrive_def andthen_def bind_def
      try_except_def ret_def split: prod.split sum.split)

lemma ret_count [keeps_count]: "cycle_count (snd (ret x s)) = cycle_count s"
  by (simp add: ret_def)

lemma raise_count [keeps_count]: "cycle_count (snd (raise e s)) = cycle_count s"
  by (simp add: raise_def)

lemma bind_count [keeps_count]:
  assumes "\<And>s. cycle_count (snd (m s)) = cycle_count s"
    and "\<And>x s. cycle_count (snd (k x s)) = cycle_count s"
  shows "cycle_count (snd (bind m k s)) = cycle_count s"
proof (cases "m s")
  case (Pair r s')
  with assms(1) [of s] have "cycle_count s' = cycle_count s" by simp
  with Pair assms(2) show ?thesis
    by (cases r) (simp_all add: bind_def)
qed

lemma andthen_count [keeps_count]:
  assumes "\<And>s. cycle_count (snd (m s)) = cycle_count s"
    and "\<And>s. cycle_count (snd (k s)) = cycle_count s"
  shows "cycle_count (snd (andthen m k s)) = cycle_count s"
  unfolding andthen_def using assms by (intro bind_count)

lemma try_except_count [keeps_count]:
  assumes "\<And>s. cycle_count (snd (m s)) = cycle_count s"
    and "\<And>s. cycle_count (snd (h s)) = cycle_count s"
  shows "cycle_count (snd (try_except m h s)) = cycle_count s"
proof (cases "m s")
  case (Pair r s')
  with assms(1) [of s] have "cycle_count s' = cycle_count s" by simp
  with Pair assms(2) show ?thesis
    by (cases r) (simp_all add: try_except_def)
qed

lemma seq_count [keeps_count]:
  assumes "\<And>m s. m \<in> set ms \<Longrightarrow> cycle_count (snd (m s)) = cycle_count s"
  shows "cycle_count (snd (seq ms s)) = cycle_count s"
  using assms
proof (induction ms arbitrary: s)
  case Nil
  then show ?case by (simp add: ret_def)
next
  case (Cons m ms)
  show ?case
    unfolding seq.simps
    by (rule andthen_count) (simp_all add: Cons)
qed

lemma with_motor_controller_count [keeps_count]:
  assumes "\<And>mc s. cycle_count (snd (f mc s)) = cycle_count s"
  shows "cycle_count (snd (with_motor_controller f s)) = cycle_count s"
  using assms by (simp add: with_motor_controller_def split: option.split)

lemma send_command_count [keeps_count]:
  "cycle_count (snd (send_command c s)) = cycle_count s"
  by (simp add: send_command_eq split: exchange.split)

lemma send_count [keeps_count]: "cycle_count (snd (send c s)) = cycle_count s"
  unfolding send_def by (intro keeps_count)

lemma set_is_idle_count [keeps_count]: "cycle_count (snd (set_is_idle b s)) = cycle_count s"
  by (simp add: set_is_idle_def)

lemma has_errors_loop_count:
  "cycle_count (snd (has_errors_loop axes s)) = cycle_count s"
proof (induction axes arbitrary: s)
  case Nil
  then show ?case by (simp add: ret_def)
next
  case (Cons axis axes)
  show ?case
    unfolding has_errors_loop.simps
    by (rule bind_count)
       (auto simp: send_command_count ret_def raise_def Cons split: sum.split)
qed

lemma has_errors_count [keeps_count]: "cycle_count (snd (has_errors mc s)) = cycle_count s"
  unfolding has_errors_def by (rule has_errors_loop_count)

lemma dump_errors_count [keeps_count]: "cycle_count (snd (dump_errors mc s)) = cycle_count s"
  unfolding dump_errors_def by (rule seq_count) (auto simp: send_count)

lemma stop_count [keeps_count]: "cycle_count (snd (stop s)) = cycle_count s"
  unfolding stop_def set_speed_rpm_left_def set_speed_rpm_right_def set_speed_rpm_def
    set_idle_left_def set_idle_right_def set_idle_def Let_def seq.simps
  by (intro keeps_count)

lemma emergency_stop_count [keeps_count]:
  "cycle_count (snd (emergency_stop reason s)) = cycle_count s"
  by (simp add: emergency_stop_is_stop stop_count)

lemma clear_errors_count [keeps_count]:
  "cycle_count (snd (clear_errors mc axis s)) = cycle_count s"
  unfolding clear_errors_def seq.simps by (intro keeps_count)

lemma dump_motor_config_count [keeps_count]:
  "cycle_count (snd (dump_motor_config s)) = cycle_count s"
  unfolding dump_motor_config_def get_velocity_ramp_def
  by (intro keeps_count) (auto simp: send_count)

lemma start_motors_velocity_mode_count [keeps_count]:
  "cycle_count (snd (start_motors_velocity_mode s)) = cycle_count s"
  unfolding start_motors_velocity_mode_def start_left_def start_right_def start_def
    enable_velocity_mode_left_def enable_velocity_mode_right_def enable_velocity_mode_def
    disable_velocity_ramping_left_def disable_velocity_ramping_right_def
    disable_velocity_ramping_def set_current_limit_def get_velocity_ramp_def seq.simps
  by (intro keeps_count)

lemma reset_and_initialize_motors_count [keeps_count]:
  "cycle_count (snd (reset_and_initialize_motors cfg False s)) = cycle_count s"
  unfolding reset_and_initialize_motors_def reset_odrive_def clear_errors_left_def
    clear_errors_right_def seq.simps if_False
  by (intro keeps_count)
     (simp_all add: ODriveUART_init_def Let_def split: list.split prod.split)

lemma stop_on_zero_then_rearm_count:
  "cycle_count (snd (stop_on_zero_then_rearm v w s)) = cycle_count s"
  unfolding stop_on_zero_then_rearm_def clear_errors_left_def clear_errors_right_def seq.simps
  by (intro keeps_count) (auto intro!: keeps_count)

lemma recover_apply:
  "andthen (andthen (emergency_stop r1)
              (andthen (reset_and_initialize_motors cfg False) (ret ()))) (ret True) s
   = (Inr True, snd (reset_and_initialize_motors cfg False (snd (emergency_stop r2 s))))"
proof -
  obtain s4 where a: "stop s = (Inr (), s4)"
    using stop_returns [of s] by (cases "stop s") auto
  obtain s5 where b: "reset_and_initialize_motors cfg False s4 = (Inr (), s5)"
    using reset_and_initialize_motors_returns [of cfg False s4]
    by (cases "reset_and_initialize_motors cfg False s4") auto
  show ?thesis
    by (simp add: io_apply emergency_stop_is_stop a b)
qed

lemma dump_then_recover_apply:
  "andthen (andthen m (andthen (emergency_stop r1)
              (andthen (reset_and_initialize_motors cfg False) (ret ())))) (ret True) s
   = (case m s of
        (Inl e, s') \<Rightarrow> (Inl e, s')
      | (Inr x, s') \<Rightarrow>
          (Inr True, snd (reset_and_initialize_motors cfg False (snd (emergency_stop r2 s')))))"
proof (cases "m s")
  case (Pair r s')
  obtain s4 where a: "stop s' = (Inr (), s4)"
    using stop_returns [of s'] by (cases "stop s'") auto
  obtain s5 where b: "reset_and_initialize_motors cfg False s4 = (Inr (), s5)"
    using reset_and_initialize_motors_returns [of cfg False s4]
    by (cases "reset_and_initialize_motors cfg False s4") auto
  from Pair show ?thesis
    by (cases r) (simp_all add: io_apply emergency_stop_is_stop a b)
qed

lemma periodic_error_check_fault:
  assumes "fst (with_motor_controller has_errors s1) \<noteq> Inr False"
  shows "periodic_error_check cfg s1
         = (Inr True, snd (reset_and_initialize_motors cfg False (snd (emergency_stop reason
             (if fst (with_motor_controller has_errors s1) = Inr True
              then snd (with_motor_controller dump_errors
                          (snd (with_motor_controller has_errors s1)))
              else snd (with_motor_controller has_errors s1))))))"
proof (cases "with_motor_controller has_errors s1")
  case (Pair r s2)
  note h = this
  show ?thesis
  proof (cases r)
    case (Inl e)
    with h show ?thesis
      by (simp add: periodic_error_check_def try_except_apply bind_apply
          recover_apply [where cfg = cfg and ?r2.0 = reason])
  next
    case (Inr b)
    with h assms have b: "b" by simp
    show ?thesis
    proof (cases "with_motor_controller dump_errors s2")
      case (Pair r' s3)
      with h Inr b show ?thesis
        by (cases r')
           (simp_all add: periodic_error_check_def try_except_apply bind_apply
              dump_then_recover_apply [where cfg = cfg and ?r2.0 = reason]
              recover_apply [where cfg = cfg and ?r2.0 = reason])
    qed
  qed
qed

text \<open>
  Claim C4. Suppose the call reaches the error check (the statements before it did not
  raise), the cycle count is a multiple of twenty, and the check finds a fault:
  \<^verbatim>\<open>has_errors\<close> returns \<^verbatim>\<open>True\<close>, or it raises. Then the call returns normally in the
  state produced by the emergency stop followed by the reset and initialisation of the
  motors, applied to the state in which the check ended (after the dump of the errors
  when \<^verbatim>\<open>has_errors\<close> returned \<^verbatim>\<open>True\<close>). Nothing is done after that, so the velocity
  command of the call is not issued, and the cycle count is not advanced.
\<close>

theorem periodic_check_fault_drops_command:
  assumes "stop_on_zero_then_rearm v w s = (Inr (), s1)"
    and "cycle_count s mod 20 = 0"
    and "fst (with_motor_controller has_errors s1) \<noteq> Inr False"
  shows "set_linear_angular_velocities cfg v w s
         = (Inr (), snd (reset_and_initialize_motors cfg False (snd (emergency_stop reason
             (if fst (with_motor_controller has_errors s1) = Inr True
              then snd (with_motor_controller dump_errors
                          (snd (with_motor_controller has_errors s1)))
              else snd (with_motor_controller has_errors s1))))))
         \<and> cycle_count (snd (set_linear_angular_velocities cfg v w s)) = cycle_count s"
proof -
  have c1: "cycle_count s1 = cycle_count s"
    using stop_on_zero_then_rearm_count [of v w s] assms(1) by simp
  have eq: "set_linear_angular_velocities cfg v w s
         = (Inr (), snd (reset_and_initialize_motors cfg False (snd (emergency_stop reason
             (if fst (with_motor_controller has_errors s1) = Inr True
              then snd (with_motor_controller dump_errors
                          (snd (with_motor_controller has_errors s1)))
              else snd (with_motor_controller has_errors s1))))))"
    using assms(1,2) c1
    by (simp add: set_linear_angular_velocities_def try_except_apply andthen_apply bind_apply
        ret_apply periodic_error_check_fault [OF assms(3), where cfg = cfg and reason = reason])
  have "cycle_count (snd (set_linear_angular_velocities cfg v w s)) = cycle_count s1"
    unfolding eq snd_conv
    by (simp add: reset_and_initialize_motors_count emergency_stop_count
        with_motor_controller_count dump_errors_count has_errors_count)
  with eq c1 show ?thesis by simp
qed

theorem periodic_check_fault_drops_command_witness:
  "stop_on_zero_then_rearm 1 0 (running 20 [Reply ''64''])
     = (Inr (), running 20 [Reply ''64''])
   \<and> cycle_count (running 20 [Reply ''64'']) mod 20 = 0
   \<and> fst (with_motor_controller has_errors (running 20 [Reply ''64''])) = Inr True
   \<and> set_linear_angular_velocities cfg0 1 0 (running 20 [Reply ''64''])
       = (Inr (), snd (reset_and_initialize_motors cfg0 False
            (snd (emergency_stop ''Motor controller errors detected''
               (snd (with_motor_controller dump_errors
                      (snd (with_motor_controller has_errors (running 20 [Reply ''64'']))))))))) 
   \<and> cycle_count (snd (set_linear_angular_velocities cfg0 1 0 (running 20 [Reply ''64''])))
       = 20"
proof -
  have a: "stop_on_zero_then_rearm 1 0 (running 20 [Reply ''64''])
           = (Inr (), running 20 [Reply ''64''])"
    by (simp add: stop_on_zero_then_rearm_skip)
  have b: "cycle_count (running 20 [Reply ''64'']) mod 20 = 0"
    by simp
  have c: "fst (with_motor_controller has_errors (running 20 [Reply ''64''])) = Inr True"
    by (simp add: with_motor_controller_def has_errors_def bind_apply send_command_eq
        cleaned_int_def py_int_def is_ascii_def strip_def isspace_def isdigit_def
        int_of_digits_def digit_value_def ret_apply)
  then have d: "fst (with_motor_controller has_errors (running 20 [Reply ''64''])) \<noteq> Inr False"
    by simp
  note t = periodic_check_fault_drops_command
             [OF a b d, where cfg = cfg0 and reason = "''Motor controller errors detected''"]
  from t c have e: "set_linear_angular_velocities cfg0 1 0 (running 20 [Reply ''64''])
       = (Inr (), snd (reset_and_initialize_motors cfg0 False
            (snd (emergency_stop ''Motor controller errors detected''
               (snd (with_motor_controller dump_errors
                      (snd (with_motor_controller has_errors (running 20 [Reply ''64'']))))))))) "
    by (simp only: simp_thms if_True)
  from t have "cycle_count (snd (set_linear_angular_velocities cfg0 1 0
                                   (running 20 [Reply ''64''])))
               = cycle_count (running 20 [Reply ''64''])"
    by (rule conjunct2)
  then have f: "cycle_count (snd (set_linear_angular_velocities cfg0 1 0
                                    (running 20 [Reply ''64''])))
               = 20"
    by (simp only: running_fields)
  show ?thesis
    by (intro conjI a b c e f)
qed

end
